theory Spec2Isabelle
  imports Main "HOL-Library.Word"
begin

section \<open>Iterator trait (iter.c)\<close>

text \<open>
  A trait is a struct of function pointers embedded in the implementing struct.  A
  function pointer is modelled by a tag naming the C function it holds.
\<close>

datatype IterNext = Range_next | List_iter_next

record Iter =
  "next" :: IterNext

text \<open>
  \<^verbatim>\<open>typedef struct Range { Iter iter; uint32_t current; uint32_t end; } Range;\<close>
\<close>

record Range =
  range_iter :: Iter
  range_current :: "32 word"
  range_end :: "32 word"

text \<open>
  \<^verbatim>\<open>range_create\<close> asserts \<^verbatim>\<open>0xFFFFFFFF != end\<close>; the failed assertion
  aborts the program, which is the value \<open>None\<close>.
\<close>

definition range_create :: "32 word \<Rightarrow> 32 word \<Rightarrow> Range option" where
  "range_create start end_value =
     (if end_value = 0xFFFFFFFF then None
      else Some \<lparr>range_iter = \<lparr>next = Range_next\<rparr>,
                 range_current = start, range_end = end_value\<rparr>)"

text \<open>
  \<^verbatim>\<open>range_next\<close> mutates the range and the caller's result slot.  The model takes the
  range and the old contents of the slot and returns the C return value, the new range
  and the new contents of the slot.  The store \<^verbatim>\<open>*result = range->current\<close> and the
  increment come before the comparison, so the comparison reads the incremented field.
\<close>

definition range_next :: "Range \<Rightarrow> 32 word \<Rightarrow> bool \<times> Range \<times> 32 word" where
  "range_next r result =
     (let result' = range_current r;
          r' = r\<lparr>range_current := range_current r + 1\<rparr>
      in (range_current r' \<le> range_end r', r', result'))"

text \<open>
  \<open>range_calls n\<close> makes \<open>n\<close> successive calls on the same range and slot and lists,
  for each call, the value returned and the slot's contents after it.
\<close>

fun range_calls :: "nat \<Rightarrow> Range \<Rightarrow> 32 word \<Rightarrow> (bool \<times> 32 word) list" where
  "range_calls 0 r result = []"
| "range_calls (Suc n) r result =
     (case range_next r result of
        (has_more, r', result') \<Rightarrow> (has_more, result') # range_calls n r' result')"

text \<open>\<open>range_after n\<close> is the range and the slot after \<open>n\<close> successive calls.\<close>

fun range_after :: "nat \<Rightarrow> Range \<Rightarrow> 32 word \<Rightarrow> Range \<times> 32 word" where
  "range_after 0 r result = (r, result)"
| "range_after (Suc n) r result =
     (case range_next r result of
        (has_more, r', result') \<Rightarrow> range_after n r' result')"

section \<open>Allocator trait (the allocator file with \<^verbatim>\<open>size_t\<close> cursors)\<close>

text \<open>
  \<^verbatim>\<open>size_t\<close> and pointers are 64-bit words; \<open>+\<close> and \<open>*\<close> on them wrap around, as
  unsigned arithmetic does in C.  A pointer is its address, \<^verbatim>\<open>NULL\<close> is address 0 and
  \<^verbatim>\<open>&memory[count]\<close> is \<open>memory + count\<close>.  The allocators never read or write the
  bytes they hand out, so the contents of memory are not part of the state.
\<close>

abbreviation NULL :: "64 word" where
  "NULL \<equiv> 0"

datatype AllocatorAlloc = Heap_allocator_alloc | Arena_allocator_alloc | Bump_allocator_alloc
datatype AllocatorFree = Heap_allocator_free | Arena_allocator_free | Bump_allocator_free
datatype AllocatorRealloc =
  Heap_allocator_realloc | Arena_allocator_realloc | Bump_allocator_realloc

record Allocator =
  alloc :: AllocatorAlloc
  free :: AllocatorFree
  realloc :: AllocatorRealloc

subsection \<open>Bump allocator\<close>

text \<open>
  \<^verbatim>\<open>typedef struct BumpAllocator { Allocator allocator; uint8_t *memory;
  size_t count; size_t length; } BumpAllocator;\<close>
\<close>

record BumpAllocator =
  bump_allocator :: Allocator
  bump_memory :: "64 word"
  bump_count :: "64 word"
  bump_length :: "64 word"

definition bump_allocator_create :: "64 word \<Rightarrow> 64 word \<Rightarrow> BumpAllocator" where
  "bump_allocator_create capacity memory =
     \<lparr>bump_allocator = \<lparr>alloc = Bump_allocator_alloc, free = Bump_allocator_free,
                         realloc = Bump_allocator_realloc\<rparr>,
      bump_memory = memory, bump_count = 0, bump_length = capacity\<rparr>"

definition bump_allocator_destroy :: "BumpAllocator \<Rightarrow> BumpAllocator" where
  "bump_allocator_destroy b =
     (if bump_memory b \<noteq> NULL then b\<lparr>bump_memory := NULL\<rparr> else b)"

text \<open>
  Each operation returns the C return value and the allocator after the call.  The
  comparison in \<^verbatim>\<open>bump_allocator_alloc\<close> is on the wrapped sum (the source notes
  ``there is an overflow issue here'').
\<close>

definition bump_allocator_alloc :: "BumpAllocator \<Rightarrow> 64 word \<Rightarrow> 64 word \<times> BumpAllocator" where
  "bump_allocator_alloc b sz =
     (if bump_count b + sz < bump_length b
      then (bump_memory b + bump_count b, b\<lparr>bump_count := bump_count b + sz\<rparr>)
      else (NULL, b))"

definition bump_allocator_free :: "BumpAllocator \<Rightarrow> 64 word \<Rightarrow> BumpAllocator" where
  "bump_allocator_free b ptr = b"

text \<open>
  \<^verbatim>\<open>bump_allocator_realloc\<close> calls through the function pointer stored in the
  allocator's own trait field: \<^verbatim>\<open>bump_allocator->allocator.alloc(...)\<close>.  The model
  follows the call when the field holds \<^verbatim>\<open>bump_allocator_alloc\<close>; any other function
  would be handed a struct it was not written for, and the model gives no result
  (\<open>None\<close>) for that.
\<close>

definition bump_allocator_realloc ::
  "BumpAllocator \<Rightarrow> 64 word \<Rightarrow> 64 word \<Rightarrow> (64 word \<times> BumpAllocator) option" where
  "bump_allocator_realloc b old_ptr sz =
     (case alloc (bump_allocator b) of
        Bump_allocator_alloc \<Rightarrow> Some (bump_allocator_alloc b sz)
      | _ \<Rightarrow> None)"

definition bump_allocator_free_all :: "BumpAllocator \<Rightarrow> BumpAllocator" where
  "bump_allocator_free_all b = b\<lparr>bump_count := 0\<rparr>"

text \<open>
  A bump allocator is well formed when its buffer is a real object of \<open>bump_length\<close>
  bytes (not \<^verbatim>\<open>NULL\<close>, and its one-past-the-end address is representable) and the cursor
  is inside it.
\<close>

definition bump_allocator_wf :: "BumpAllocator \<Rightarrow> bool" where
  "bump_allocator_wf b \<longleftrightarrow>
     bump_memory b \<noteq> NULL \<and>
     unat (bump_memory b) + unat (bump_length b) < 2 ^ 64 \<and>
     bump_count b \<le> bump_length b"

subsection \<open>Arena allocator\<close>

text \<open>
  The arena holds a pointer to the trait field of another allocator object and calls
  that object's functions through it.  The model takes the behaviour of the pointed-to
  object as a record of functions over that object's state \<open>'h\<close> and threads the state
  through every call.
\<close>

record 'h Backing =
  backing_alloc :: "'h \<Rightarrow> 64 word \<Rightarrow> 64 word \<times> 'h"
  backing_free :: "'h \<Rightarrow> 64 word \<Rightarrow> 'h"
  backing_realloc :: "'h \<Rightarrow> 64 word \<Rightarrow> 64 word \<Rightarrow> 64 word \<times> 'h"

text \<open>
  \<^verbatim>\<open>typedef struct ArenaAllocator { Allocator allocator; Allocator *backing_allocator;
  uint8_t *memory; size_t count; size_t length; } ArenaAllocator;\<close>
\<close>

record ArenaAllocator =
  arena_allocator :: Allocator
  arena_backing_allocator :: "64 word"
  arena_memory :: "64 word"
  arena_count :: "64 word"
  arena_length :: "64 word"

definition arena_allocator_create :: "64 word \<Rightarrow> ArenaAllocator" where
  "arena_allocator_create backing_allocator =
     \<lparr>arena_allocator = \<lparr>alloc = Arena_allocator_alloc, free = Arena_allocator_free,
                          realloc = Arena_allocator_realloc\<rparr>,
      arena_backing_allocator = backing_allocator,
      arena_memory = NULL, arena_count = 0, arena_length = 0\<rparr>"

definition arena_allocator_destroy ::
  "'h Backing \<Rightarrow> 'h \<Rightarrow> ArenaAllocator \<Rightarrow> ArenaAllocator \<times> 'h" where
  "arena_allocator_destroy B h a =
     (if arena_memory a \<noteq> NULL
      then (a\<lparr>arena_memory := NULL\<rparr>, backing_free B h (arena_memory a))
      else (a, h))"

definition arena_allocator_clear :: "ArenaAllocator \<Rightarrow> ArenaAllocator" where
  "arena_allocator_clear a = a\<lparr>arena_count := 0\<rparr>"

definition arena_allocator_alloc ::
  "'h Backing \<Rightarrow> 'h \<Rightarrow> ArenaAllocator \<Rightarrow> 64 word \<Rightarrow> 64 word \<times> ArenaAllocator \<times> 'h" where
  "arena_allocator_alloc B h a sz =
     (let new_count = arena_count a + sz
      in if new_count > arena_length a
         then
           (let new_length = arena_length a * 2;
                new_length = (if new_length < new_count then new_count else new_length);
                (m, h') = backing_alloc B h new_count;
                a' = a\<lparr>arena_memory := m, arena_length := new_length\<rparr>
            in (arena_memory a' + arena_count a', a'\<lparr>arena_count := new_count\<rparr>, h'))
         else (arena_memory a + arena_count a, a\<lparr>arena_count := new_count\<rparr>, h))"

definition arena_allocator_free :: "ArenaAllocator \<Rightarrow> 64 word \<Rightarrow> ArenaAllocator" where
  "arena_allocator_free a ptr = a"

definition arena_allocator_realloc ::
  "'h Backing \<Rightarrow> 'h \<Rightarrow> ArenaAllocator \<Rightarrow> 64 word \<Rightarrow> 64 word
     \<Rightarrow> 64 word \<times> ArenaAllocator \<times> 'h" where
  "arena_allocator_realloc B h a old_ptr sz =
     (let new_count = arena_count a + sz
      in if new_count > arena_length a
         then
           (let new_length = arena_length a * 2;
                new_length = (if new_length < new_count then new_count else new_length);
                (m, h') = backing_realloc B h (arena_memory a) new_length;
                a' = a\<lparr>arena_memory := m, arena_length := new_length\<rparr>
            in (arena_memory a' + arena_count a', a'\<lparr>arena_count := new_count\<rparr>, h'))
         else (arena_memory a + arena_count a, a\<lparr>arena_count := new_count\<rparr>, h))"

text \<open>
  To observe which function of the backing allocator a call reaches, and with which
  arguments, the backing allocator can be one that appends every call it receives to a
  log and answers with the address \<open>reply\<close> gives for that call.
\<close>

datatype backing_call =
  Call_alloc "64 word" | Call_free "64 word" | Call_realloc "64 word" "64 word"

definition recording_allocator :: "(backing_call \<Rightarrow> 64 word) \<Rightarrow> backing_call list Backing" where
  "recording_allocator reply =
     \<lparr>backing_alloc = (\<lambda>log n. (reply (Call_alloc n), log @ [Call_alloc n])),
      backing_free = (\<lambda>log p. log @ [Call_free p]),
      backing_realloc =
        (\<lambda>log p n. (reply (Call_realloc p n), log @ [Call_realloc p n]))\<rparr>"

text \<open>\<open>constant_reply p\<close> answers every call with the address \<open>p\<close>.\<close>

definition constant_reply :: "64 word \<Rightarrow> backing_call \<Rightarrow> 64 word" where
  "constant_reply p c = p"

section \<open>Allocator trait (the allocator file with \<^verbatim>\<open>uint32_t\<close> cursors)\<close>

text \<open>
  The repository holds a second allocator file with the same function names, in which
  \<^verbatim>\<open>count\<close> and \<^verbatim>\<open>length\<close> are \<^verbatim>\<open>uint32_t\<close>.  Its definitions carry the suffix
  \<open>_u32\<close>.  A \<^verbatim>\<open>uint32_t\<close> operand is converted to \<^verbatim>\<open>size_t\<close> before it is added
  to or compared with a \<^verbatim>\<open>size_t\<close>, and a \<^verbatim>\<open>size_t\<close> stored in a \<^verbatim>\<open>uint32_t\<close> is
  truncated; both conversions are \<open>ucast\<close>.
\<close>

record BumpAllocator_u32 =
  bump32_allocator :: Allocator
  bump32_memory :: "64 word"
  bump32_count :: "32 word"
  bump32_length :: "32 word"

text \<open>
  \<^verbatim>\<open>bump_allocator_create\<close> of this file obtains the buffer itself; \<open>memory\<close> is the
  address \<^verbatim>\<open>malloc(capacity)\<close> returned.
\<close>

definition bump_allocator_create_u32 :: "64 word \<Rightarrow> 64 word \<Rightarrow> BumpAllocator_u32" where
  "bump_allocator_create_u32 capacity memory =
     \<lparr>bump32_allocator = \<lparr>alloc = Bump_allocator_alloc, free = Bump_allocator_free,
                           realloc = Bump_allocator_realloc\<rparr>,
      bump32_memory = memory, bump32_count = 0, bump32_length = ucast capacity\<rparr>"

definition bump_allocator_alloc_u32 ::
  "BumpAllocator_u32 \<Rightarrow> 64 word \<Rightarrow> 64 word \<times> BumpAllocator_u32" where
  "bump_allocator_alloc_u32 b sz =
     (if (ucast (bump32_count b) + sz :: 64 word) < ucast (bump32_length b)
      then (bump32_memory b + ucast (bump32_count b),
            b\<lparr>bump32_count := ucast (ucast (bump32_count b) + sz :: 64 word)\<rparr>)
      else (NULL, b))"

definition bump_allocator_free_u32 :: "BumpAllocator_u32 \<Rightarrow> 64 word \<Rightarrow> BumpAllocator_u32" where
  "bump_allocator_free_u32 b ptr = b"

definition bump_allocator_realloc_u32 ::
  "BumpAllocator_u32 \<Rightarrow> 64 word \<Rightarrow> 64 word \<Rightarrow> (64 word \<times> BumpAllocator_u32) option" where
  "bump_allocator_realloc_u32 b old_ptr sz =
     (case alloc (bump32_allocator b) of
        Bump_allocator_alloc \<Rightarrow> Some (bump_allocator_alloc_u32 b sz)
      | _ \<Rightarrow> None)"

definition bump_allocator_wf_u32 :: "BumpAllocator_u32 \<Rightarrow> bool" where
  "bump_allocator_wf_u32 b \<longleftrightarrow>
     bump32_memory b \<noteq> NULL \<and>
     unat (bump32_memory b) + unat (bump32_length b) < 2 ^ 64 \<and>
     bump32_count b \<le> bump32_length b"

record ArenaAllocator_u32 =
  arena32_allocator :: Allocator
  arena32_backing_allocator :: "64 word"
  arena32_memory :: "64 word"
  arena32_count :: "32 word"
  arena32_length :: "32 word"

definition arena_allocator_create_u32 :: "64 word \<Rightarrow> ArenaAllocator_u32" where
  "arena_allocator_create_u32 backing_allocator =
     \<lparr>arena32_allocator = \<lparr>alloc = Arena_allocator_alloc, free = Arena_allocator_free,
                            realloc = Arena_allocator_realloc\<rparr>,
      arena32_backing_allocator = backing_allocator,
      arena32_memory = NULL, arena32_count = 0, arena32_length = 0\<rparr>"

definition arena_allocator_alloc_u32 ::
  "'h Backing \<Rightarrow> 'h \<Rightarrow> ArenaAllocator_u32 \<Rightarrow> 64 word
     \<Rightarrow> 64 word \<times> ArenaAllocator_u32 \<times> 'h" where
  "arena_allocator_alloc_u32 B h a sz =
     (let new_count = (ucast (ucast (arena32_count a) + sz :: 64 word) :: 32 word)
      in if new_count < arena32_length a
         then
           (let new_length = arena32_length a * 2;
                new_length = (if new_length < new_count then new_count else new_length);
                (m, h') = backing_alloc B h (ucast new_count);
                a' = a\<lparr>arena32_memory := m, arena32_length := new_length\<rparr>
            in (arena32_memory a' + ucast (arena32_count a'),
                a'\<lparr>arena32_count := new_count\<rparr>, h'))
         else (arena32_memory a + ucast (arena32_count a),
               a\<lparr>arena32_count := new_count\<rparr>, h))"

definition arena_allocator_free_u32 ::
  "ArenaAllocator_u32 \<Rightarrow> 64 word \<Rightarrow> ArenaAllocator_u32" where
  "arena_allocator_free_u32 a ptr = a"

definition arena_allocator_realloc_u32 ::
  "'h Backing \<Rightarrow> 'h \<Rightarrow> ArenaAllocator_u32 \<Rightarrow> 64 word \<Rightarrow> 64 word
     \<Rightarrow> 64 word \<times> ArenaAllocator_u32 \<times> 'h" where
  "arena_allocator_realloc_u32 B h a old_ptr sz =
     (let new_count = (ucast (ucast (arena32_count a) + sz :: 64 word) :: 32 word)
      in if new_count < arena32_length a
         then
           (let new_length = arena32_length a * 2;
                new_length = (if new_length < new_count then new_count else new_length);
                (m, h') = backing_realloc B h (arena32_memory a) (ucast new_count);
                a' = a\<lparr>arena32_memory := m, arena32_length := new_length\<rparr>
            in (arena32_memory a' + ucast (arena32_count a'),
                a'\<lparr>arena32_count := new_count\<rparr>, h'))
         else (arena32_memory a + ucast (arena32_count a),
               a\<lparr>arena32_count := new_count\<rparr>, h))"

section \<open>Scan trait (scan.c)\<close>

datatype ScanReturn = Sum_return | String_builder_return
datatype ScanAppend = Sum_append | String_builder_append

record Scan =
  scan_ret :: ScanReturn
  scan_append :: ScanAppend

text \<open>
  \<^verbatim>\<open>typedef struct StringBuilder { Scan scan; char **strings; uint32_t count;
  uint32_t length; } StringBuilder;\<close>

  \<^verbatim>\<open>strings\<close> points to a heap block.  The model keeps the block as the list of the
  pointer-sized slots that lie wholly inside it; a slot is \<open>Some s\<close> when it holds a
  pointer to the string \<open>s\<close> and \<open>None\<close> when it holds \<^verbatim>\<open>NULL\<close> or an indeterminate
  value.  A string \<open>s\<close> stands for the bytes of \<open>s\<close> followed by the terminator.
  A pointer is 8 bytes, as in the allocator model.  \<^verbatim>\<open>calloc\<close> and \<^verbatim>\<open>realloc\<close> are
  taken to succeed.
\<close>

record StringBuilder =
  sb_scan :: Scan
  sb_strings :: "string option list"
  sb_count :: "32 word"
  sb_length :: "32 word"

text \<open>
  A store or a load outside the block, a load of a slot that holds no string pointer
  and a store outside the caller's result buffer are undefined behaviour in C; in the
  model they are errors.
\<close>

datatype error =
  Store_outside_strings nat nat
  | No_string_at nat
  | Store_outside_result nat nat

text \<open>
  \<^verbatim>\<open>calloc(sizeof(char*), capacity)\<close> returns \<open>8 * capacity\<close> zeroed bytes, which are
  \<open>capacity\<close> slots holding \<^verbatim>\<open>NULL\<close>.
\<close>

definition string_builder_create :: "32 word \<Rightarrow> StringBuilder" where
  "string_builder_create capacity =
     \<lparr>sb_scan = \<lparr>scan_ret = String_builder_return, scan_append = String_builder_append\<rparr>,
      sb_strings = replicate (unat capacity) None,
      sb_count = 0, sb_length = capacity\<rparr>"

text \<open>
  \<^verbatim>\<open>realloc(ptr, n)\<close> returns a block of \<open>n\<close> bytes whose contents equal the old ones
  up to the lesser of the two sizes; the rest is indeterminate.  In slots: the block has
  \<open>n div 8\<close> whole slots, of which the old ones keep their value.
\<close>

definition realloc_slots :: "string option list \<Rightarrow> nat \<Rightarrow> string option list" where
  "realloc_slots slots n =
     take (n div 8) slots @ replicate (n div 8 - length slots) None"

text \<open>
  \<^verbatim>\<open>string_builder_append\<close> passes \<^verbatim>\<open>new_length\<close>, a number of slots, to \<^verbatim>\<open>realloc\<close>
  as the number of bytes.
\<close>

definition string_builder_append :: "StringBuilder \<Rightarrow> string \<Rightarrow> error + StringBuilder" where
  "string_builder_append builder string =
     (let builder1 =
            (if sb_count builder = sb_length builder
             then (let new_length = sb_length builder * 2
                   in builder\<lparr>sb_strings := realloc_slots (sb_strings builder) (unat new_length),
                              sb_length := new_length\<rparr>)
             else builder)
      in if unat (sb_count builder1) < length (sb_strings builder1)
         then Inr (builder1\<lparr>sb_strings := (sb_strings builder1)[unat (sb_count builder1) := Some string],
                            sb_count := sb_count builder1 + 1\<rparr>)
         else Inl (Store_outside_strings (unat (sb_count builder1)) (length (sb_strings builder1))))"

text \<open>\<^verbatim>\<open>strlen\<close> counts the bytes before the first zero byte.\<close>

definition strlen :: "string \<Rightarrow> nat" where
  "strlen s = length (takeWhile (\<lambda>c. c \<noteq> CHR 0x00) s)"

text \<open>
  One round of the loop of \<^verbatim>\<open>string_builder_return\<close>: \<^verbatim>\<open>len\<close> is the \<^verbatim>\<open>size_t\<close>
  result of \<^verbatim>\<open>strlen\<close> stored in a \<^verbatim>\<open>uint32_t\<close>; \<^verbatim>\<open>memcpy\<close> copies \<^verbatim>\<open>len\<close> bytes to
  offset \<^verbatim>\<open>chr_offset\<close> of the result buffer.
\<close>

definition string_builder_return_step ::
  "StringBuilder \<Rightarrow> nat \<Rightarrow> 32 word \<times> string \<Rightarrow> error + (32 word \<times> string)" where
  "string_builder_return_step builder index st =
     (case st of (chr_offset, final_string) \<Rightarrow>
        (case (if index < length (sb_strings builder) then sb_strings builder ! index else None) of
           None \<Rightarrow> Inl (No_string_at index)
         | Some s \<Rightarrow>
             (let len = (of_nat (strlen s) :: 32 word)
              in if unat chr_offset + unat len \<le> length final_string
                 then Inr (chr_offset + len,
                           take (unat chr_offset) final_string @ take (unat len) s
                             @ drop (unat chr_offset + unat len) final_string)
                 else Inl (Store_outside_result (unat chr_offset + unat len)
                             (length final_string)))))"

fun string_builder_return_loop ::
  "StringBuilder \<Rightarrow> nat list \<Rightarrow> 32 word \<times> string \<Rightarrow> error + (32 word \<times> string)" where
  "string_builder_return_loop builder [] st = Inr st"
| "string_builder_return_loop builder (index # indices) st =
     (case string_builder_return_step builder index st of
        Inl e \<Rightarrow> Inl e
      | Inr st' \<Rightarrow> string_builder_return_loop builder indices st')"

text \<open>
  \<^verbatim>\<open>string_builder_return\<close> takes the builder, which it only reads, and the caller's
  buffer, and returns the buffer after the call.
\<close>

definition string_builder_return :: "StringBuilder \<Rightarrow> string \<Rightarrow> error + string" where
  "string_builder_return builder result =
     (case string_builder_return_loop builder [0..<unat (sb_count builder)] (0, result) of
        Inl e \<Rightarrow> Inl e
      | Inr (chr_offset, final_string) \<Rightarrow>
          if unat chr_offset < length final_string
          then Inr (final_string[unat chr_offset := CHR 0x00])
          else Inl (Store_outside_result (unat chr_offset) (length final_string)))"

text \<open>
  \<open>string_builder_appends\<close> appends a list of strings in order and stops at the first
  error.
\<close>

fun string_builder_appends :: "StringBuilder \<Rightarrow> string list \<Rightarrow> error + StringBuilder" where
  "string_builder_appends builder [] = Inr builder"
| "string_builder_appends builder (s # ss) =
     (case string_builder_append builder s of
        Inl e \<Rightarrow> Inl e
      | Inr builder' \<Rightarrow> string_builder_appends builder' ss)"


section \<open>Properties of the Range iterator\<close>

lemma range_calls_numeral:
  "range_calls (numeral k) r result =
     (case range_next r result of
        (has_more, r', result') \<Rightarrow> (has_more, result') # range_calls (pred_numeral k) r' result')"
  by (simp add: numeral_eq_Suc)

text \<open>
  C1.  The claim: on \<^verbatim>\<open>range_create(0, 10)\<close> successive calls write 0, 1, ..., 10, each
  of these calls returning true, and advance returns true exactly when the value it
  wrote lies in the range.  The code compares after the increment: of twelve successive
  calls the first ten return true, and the eleventh, which writes 10, already returns
  false.
\<close>

theorem range_0_10_calls:
  "map_option (\<lambda>r. range_calls 12 r 0) (range_create 0 10) =
     Some [(True, 0), (True, 1), (True, 2), (True, 3), (True, 4), (True, 5), (True, 6),
           (True, 7), (True, 8), (True, 9), (False, 10), (False, 11)]"
  by (simp add: range_create_def range_next_def range_calls_numeral)

lemma range_after_eq:
  "range_after n r result =
     (r\<lparr>range_current := range_current r + of_nat n\<rparr>,
      if n = 0 then result else range_current r + of_nat n - 1)"
  by (induction n arbitrary: r result) (simp_all add: range_next_def Let_def)

lemma word_gt_add_no_wrap:
  fixes c e :: "32 word"
  assumes "e < c" and "unat c + k < 2 ^ 32"
  shows "e < c + of_nat k"
proof -
  have "unat (c + of_nat k) = unat c + k"
    using assms(2) by (simp add: unat_word_ariths unat_of_nat take_bit_eq_mod)
  then show ?thesis
    using assms(1) by (simp add: word_less_nat_alt)
qed

text \<open>
  C2, as the code has it.  Once \<open>current\<close> is past \<open>end\<close>, every further call returns
  false for as long as the increment does not wrap around the 32-bit maximum, and every
  such call overwrites the result slot with the value \<open>current\<close> had before the call:
  after \<open>n\<close> calls the next one returns false, stores \<open>current + n\<close> and leaves the
  range exhausted.
\<close>

theorem range_next_exhausted:
  assumes "range_end r < range_current r" and "unat (range_current r) + n < 2 ^ 32 - 1"
  shows "case range_after n r result of
           (r', result') \<Rightarrow>
             range_next r' result' =
               (False, r\<lparr>range_current := range_current r + of_nat n + 1\<rparr>,
                range_current r + of_nat n)
             \<and> range_end r < range_current r + of_nat n + 1"
proof -
  have "range_end r < range_current r + of_nat (Suc n)"
    using assms by (intro word_gt_add_no_wrap) simp_all
  then have "range_end r < range_current r + of_nat n + 1"
    by (simp add: ac_simps)
  then show ?thesis
    by (simp add: range_after_eq range_next_def Let_def not_le)
qed

theorem range_next_exhausted_witness:
  "range_next \<lparr>range_iter = \<lparr>next = Range_next\<rparr>, range_current = 14, range_end = 10\<rparr> 13 =
     (False, \<lparr>range_iter = \<lparr>next = Range_next\<rparr>, range_current = 15, range_end = 10\<rparr>, 14)"
  using range_next_exhausted
    [of "\<lparr>range_iter = \<lparr>next = Range_next\<rparr>, range_current = 11, range_end = 10\<rparr>" 3 0]
  by (simp add: range_after_eq)

text \<open>
  C2 as stated fails twice.  An exhausted range does write: with \<open>current = 11\<close>,
  \<open>end = 10\<close> and a slot holding 0, the call leaves 11 in the slot.  And exhaustion does
  not last for ever: \<^verbatim>\<open>range_create(0xFFFFFFFF, 10)\<close> is past its end, yet the call wraps
  \<open>current\<close> to 0 and returns true.
\<close>

theorem range_next_exhausted_counterexample:
  "range_end \<lparr>range_iter = \<lparr>next = Range_next\<rparr>, range_current = 11, range_end = 10\<rparr>
     < range_current \<lparr>range_iter = \<lparr>next = Range_next\<rparr>, range_current = 11, range_end = 10\<rparr>
   \<and> range_next \<lparr>range_iter = \<lparr>next = Range_next\<rparr>, range_current = 11, range_end = 10\<rparr> 0 =
       (False, \<lparr>range_iter = \<lparr>next = Range_next\<rparr>, range_current = 12, range_end = 10\<rparr>, 11)
   \<and> range_create 0xFFFFFFFF 10 =
       Some \<lparr>range_iter = \<lparr>next = Range_next\<rparr>, range_current = 0xFFFFFFFF, range_end = 10\<rparr>
   \<and> range_end \<lparr>range_iter = \<lparr>next = Range_next\<rparr>, range_current = 0xFFFFFFFF, range_end = 10\<rparr>
     < range_current \<lparr>range_iter = \<lparr>next = Range_next\<rparr>, range_current = 0xFFFFFFFF, range_end = 10\<rparr>
   \<and> range_next \<lparr>range_iter = \<lparr>next = Range_next\<rparr>, range_current = 0xFFFFFFFF, range_end = 10\<rparr> 0 =
       (True, \<lparr>range_iter = \<lparr>next = Range_next\<rparr>, range_current = 0, range_end = 10\<rparr>, 0xFFFFFFFF)"
  by (simp add: range_next_def range_create_def)

section \<open>Properties of the bump allocator\<close>

lemma unat_ucast_32_64: "unat (ucast (x :: 32 word) :: 64 word) = unat x"
proof -
  have "unat x < 2 ^ LENGTH(32)"
    by (rule unsigned_less)
  then have "unat x < 2 ^ 64"
    by simp
  then show ?thesis
    by (simp add: unsigned_ucast_eq take_bit_nat_eq_self)
qed

lemma ptr_add_not_NULL:
  fixes m c :: "64 word"
  assumes "m \<noteq> 0" and "unat m + unat c < 2 ^ 64"
  shows "m + c \<noteq> 0"
proof -
  have "unat (m + c) = unat m + unat c"
    using assms(2) by (simp add: unat_word_ariths take_bit_eq_mod)
  moreover have "0 < unat m"
    using assms(1) by (simp add: unat_gt_0)
  ultimately have "unat (m + c) \<noteq> 0" by simp
  then show ?thesis by (simp add: unat_eq_0)
qed

lemma bump_allocator_cursor_not_NULL:
  assumes "bump_allocator_wf b"
  shows "bump_memory b + bump_count b \<noteq> NULL"
proof -
  have "unat (bump_count b) \<le> unat (bump_length b)"
    using assms by (simp add: bump_allocator_wf_def word_le_nat_alt)
  then show ?thesis
    using assms by (intro ptr_add_not_NULL) (simp_all add: bump_allocator_wf_def)
qed

lemma bump_allocator_cursor_not_NULL_u32:
  assumes "bump_allocator_wf_u32 b"
  shows "bump32_memory b + ucast (bump32_count b) \<noteq> NULL"
proof -
  have "unat (bump32_count b) \<le> unat (bump32_length b)"
    using assms by (simp add: bump_allocator_wf_u32_def word_le_nat_alt)
  then show ?thesis
    using assms
    by (intro ptr_add_not_NULL) (simp_all add: bump_allocator_wf_u32_def unat_ucast_32_64)
qed

lemma exact_fill_not_less:
  fixes c s l :: "64 word"
  assumes "unat c + unat s = unat l"
  shows "\<not> c + s < l"
proof -
  have "unat l < 2 ^ LENGTH(64)"
    by (rule unsigned_less)
  then have "unat c + unat s < 2 ^ 64"
    using assms by simp
  then have "unat (c + s) = unat c + unat s"
    by (simp add: unat_word_ariths take_bit_eq_mod)
  then show ?thesis
    using assms by (simp add: word_less_nat_alt)
qed

lemma ucast_truncate_small:
  fixes x :: "64 word" and l :: "32 word"
  assumes "x < ucast l"
  shows "(ucast (ucast x :: 32 word) :: 64 word) = x"
proof -
  have "unat x < unat l"
    using assms by (simp add: word_less_nat_alt unat_ucast_32_64)
  moreover have "unat l < 2 ^ LENGTH(32)"
    by (rule unsigned_less)
  ultimately have "unat x < 2 ^ 32"
    by simp
  then show ?thesis
    by (simp add: word_eq_iff_unsigned [where ?'a = nat] unsigned_ucast_eq
        unsigned_take_bit_eq take_bit_nat_eq_self)
qed

text \<open>The well-formedness of a bump allocator is kept by every allocation.\<close>

lemma bump_allocator_alloc_wf:
  assumes "bump_allocator_wf b"
  shows "bump_allocator_wf (snd (bump_allocator_alloc b sz))"
  using assms by (auto simp: bump_allocator_alloc_def bump_allocator_wf_def)

lemma bump_allocator_alloc_keeps_trait:
  "bump_allocator (snd (bump_allocator_alloc b sz)) = bump_allocator b"
  by (simp add: bump_allocator_alloc_def)

text \<open>
  C3.  In both allocator files \<^verbatim>\<open>bump_allocator_alloc\<close> succeeds exactly when
  \<open>count + size < length\<close> (the sum as the code computes it, in \<^verbatim>\<open>size_t\<close>): then the
  pointer returned is \<open>memory + count\<close> and the cursor becomes \<open>count + size\<close>; otherwise
  the result is \<^verbatim>\<open>NULL\<close> and the allocator is unchanged.  A request that would fill the
  buffer exactly fails.  For a well-formed allocator the pointer returned on success is
  not \<^verbatim>\<open>NULL\<close>, so that the result is non-\<^verbatim>\<open>NULL\<close> exactly when
  \<open>count + size < length\<close>.
\<close>

theorem bump_allocator_alloc_strict:
  "(bump_count b + sz < bump_length b \<longrightarrow>
      bump_allocator_alloc b sz =
        (bump_memory b + bump_count b, b\<lparr>bump_count := bump_count b + sz\<rparr>))
   \<and> (\<not> bump_count b + sz < bump_length b \<longrightarrow> bump_allocator_alloc b sz = (NULL, b))
   \<and> (unat (bump_count b) + unat sz = unat (bump_length b) \<longrightarrow>
        bump_allocator_alloc b sz = (NULL, b))
   \<and> (bump_allocator_wf b \<longrightarrow>
        (fst (bump_allocator_alloc b sz) \<noteq> NULL) = (bump_count b + sz < bump_length b))
   \<and> (ucast (bump32_count b32) + sz < (ucast (bump32_length b32) :: 64 word) \<longrightarrow>
        bump_allocator_alloc_u32 b32 sz =
          (bump32_memory b32 + ucast (bump32_count b32),
           b32\<lparr>bump32_count := ucast (ucast (bump32_count b32) + sz :: 64 word)\<rparr>)
        \<and> (ucast (ucast (ucast (bump32_count b32) + sz :: 64 word) :: 32 word) :: 64 word)
            = ucast (bump32_count b32) + sz)
   \<and> (\<not> ucast (bump32_count b32) + sz < (ucast (bump32_length b32) :: 64 word) \<longrightarrow>
        bump_allocator_alloc_u32 b32 sz = (NULL, b32))
   \<and> (unat (bump32_count b32) + unat sz = unat (bump32_length b32) \<longrightarrow>
        bump_allocator_alloc_u32 b32 sz = (NULL, b32))
   \<and> (bump_allocator_wf_u32 b32 \<longrightarrow>
        (fst (bump_allocator_alloc_u32 b32 sz) \<noteq> NULL) =
          (ucast (bump32_count b32) + sz < (ucast (bump32_length b32) :: 64 word)))"
proof -
  have exact32: "\<not> ucast (bump32_count b32) + sz < (ucast (bump32_length b32) :: 64 word)"
    if "unat (bump32_count b32) + unat sz = unat (bump32_length b32)"
    using that by (intro exact_fill_not_less) (simp add: unat_ucast_32_64)
  show ?thesis
    using bump_allocator_cursor_not_NULL [of b] bump_allocator_cursor_not_NULL_u32 [of b32]
      exact_fill_not_less [of "bump_count b" sz "bump_length b"] exact32
    by (simp add: bump_allocator_alloc_def bump_allocator_alloc_u32_def ucast_truncate_small)
qed

theorem bump_allocator_alloc_strict_witness:
  "bump_allocator_wf ((bump_allocator_create 1024 4096)\<lparr>bump_count := 300\<rparr>)
   \<and> bump_allocator_wf_u32 ((bump_allocator_create_u32 1024 4096)\<lparr>bump32_count := 300\<rparr>)
   \<and> bump_allocator_alloc ((bump_allocator_create 1024 4096)\<lparr>bump_count := 300\<rparr>) 200 =
       (4396, (bump_allocator_create 1024 4096)\<lparr>bump_count := 500\<rparr>)
   \<and> bump_allocator_alloc ((bump_allocator_create 1024 4096)\<lparr>bump_count := 300\<rparr>) 724 =
       (NULL, (bump_allocator_create 1024 4096)\<lparr>bump_count := 300\<rparr>)
   \<and> bump_allocator_alloc ((bump_allocator_create 1024 4096)\<lparr>bump_count := 300\<rparr>) 1024 =
       (NULL, (bump_allocator_create 1024 4096)\<lparr>bump_count := 300\<rparr>)
   \<and> bump_allocator_alloc_u32 ((bump_allocator_create_u32 1024 4096)\<lparr>bump32_count := 300\<rparr>) 200 =
       (4396, (bump_allocator_create_u32 1024 4096)\<lparr>bump32_count := 500\<rparr>)
   \<and> bump_allocator_alloc_u32 ((bump_allocator_create_u32 1024 4096)\<lparr>bump32_count := 300\<rparr>) 724 =
       (NULL, (bump_allocator_create_u32 1024 4096)\<lparr>bump32_count := 300\<rparr>)"
  using
    bump_allocator_alloc_strict
      [where b = "(bump_allocator_create 1024 4096)\<lparr>bump_count := 300\<rparr>"
         and ?b32.0 = "(bump_allocator_create_u32 1024 4096)\<lparr>bump32_count := 300\<rparr>"
         and sz = 200]
    bump_allocator_alloc_strict
      [where b = "(bump_allocator_create 1024 4096)\<lparr>bump_count := 300\<rparr>"
         and ?b32.0 = "(bump_allocator_create_u32 1024 4096)\<lparr>bump32_count := 300\<rparr>"
         and sz = 724]
    bump_allocator_alloc_strict
      [where b = "(bump_allocator_create 1024 4096)\<lparr>bump_count := 300\<rparr>"
         and ?b32.0 = "(bump_allocator_create_u32 1024 4096)\<lparr>bump32_count := 300\<rparr>"
         and sz = 1024]
  by (simp add: bump_allocator_wf_def bump_allocator_wf_u32_def bump_allocator_create_def
      bump_allocator_create_u32_def)

lemma bump_allocator_alloc_keeps_trait_u32:
  "bump32_allocator (snd (bump_allocator_alloc_u32 b sz)) = bump32_allocator b"
  by (simp add: bump_allocator_alloc_u32_def)

text \<open>
  C8.  With the trait field as \<^verbatim>\<open>bump_allocator_create\<close> wires it,
  \<^verbatim>\<open>bump_allocator_realloc\<close> returns what \<^verbatim>\<open>bump_allocator_alloc\<close> returns on the same
  allocator and size, pointer and allocator state alike, whatever the old pointer is;
  so in both allocator files.
\<close>

theorem bump_allocator_realloc_is_alloc:
  assumes "alloc (bump_allocator b) = Bump_allocator_alloc"
    and "alloc (bump32_allocator b32) = Bump_allocator_alloc"
  shows "bump_allocator_realloc b old_ptr sz = Some (bump_allocator_alloc b sz)
     \<and> bump_allocator_realloc_u32 b32 old_ptr sz = Some (bump_allocator_alloc_u32 b32 sz)"
  using assms by (simp add: bump_allocator_realloc_def bump_allocator_realloc_u32_def)

theorem bump_allocator_realloc_is_alloc_witness:
  "alloc (bump_allocator ((bump_allocator_create 1024 4096)\<lparr>bump_count := 300\<rparr>))
     = Bump_allocator_alloc
   \<and> alloc (bump32_allocator ((bump_allocator_create_u32 1024 4096)\<lparr>bump32_count := 300\<rparr>))
     = Bump_allocator_alloc
   \<and> bump_allocator_realloc ((bump_allocator_create 1024 4096)\<lparr>bump_count := 300\<rparr>) 4196 200 =
       Some (4396, (bump_allocator_create 1024 4096)\<lparr>bump_count := 500\<rparr>)
   \<and> bump_allocator_realloc_u32
         ((bump_allocator_create_u32 1024 4096)\<lparr>bump32_count := 300\<rparr>) 4196 200 =
       Some (4396, (bump_allocator_create_u32 1024 4096)\<lparr>bump32_count := 500\<rparr>)"
  using bump_allocator_realloc_is_alloc
    [of "(bump_allocator_create 1024 4096)\<lparr>bump_count := 300\<rparr>"
        "(bump_allocator_create_u32 1024 4096)\<lparr>bump32_count := 300\<rparr>" 4196 200]
  by (simp add: bump_allocator_create_def bump_allocator_alloc_def
      bump_allocator_create_u32_def bump_allocator_alloc_u32_def)

text \<open>
  C9.  \<^verbatim>\<open>bump_allocator_free\<close> and \<^verbatim>\<open>arena_allocator_free\<close> leave every field of the
  allocator as it was, for every allocator and every pointer; so in both allocator files.
\<close>

theorem allocator_free_no_change:
  "bump_allocator_free b ptr = b \<and> arena_allocator_free a ptr = a
   \<and> bump_allocator_free_u32 b32 ptr = b32 \<and> arena_allocator_free_u32 a32 ptr = a32"
  by (simp add: bump_allocator_free_def arena_allocator_free_def
      bump_allocator_free_u32_def arena_allocator_free_u32_def)

section \<open>Properties of the arena allocator\<close>

lemma if_less_max: "(if x < y then y else x) = max x (y :: 'a :: linorder)"
  by (auto simp: max_def)

text \<open>
  \<^verbatim>\<open>arena_allocator_alloc\<close> of the \<^verbatim>\<open>size_t\<close> file, branch by branch: it grows exactly
  when \<open>count + size\<close> exceeds \<open>length\<close>; the new length is the larger of twice the old
  length and \<open>count + size\<close>; the buffer is the one the backing allocator's \<open>alloc\<close>
  returns for \<open>count + size\<close> bytes; the pointer returned is at the old \<open>count\<close> and
  \<open>count\<close> becomes \<open>count + size\<close>.
\<close>

lemma arena_allocator_alloc_eq:
  "arena_allocator_alloc B h a sz =
     (if arena_length a < arena_count a + sz
      then (fst (backing_alloc B h (arena_count a + sz)) + arena_count a,
            a\<lparr>arena_memory := fst (backing_alloc B h (arena_count a + sz)),
              arena_length := max (arena_length a * 2) (arena_count a + sz),
              arena_count := arena_count a + sz\<rparr>,
            snd (backing_alloc B h (arena_count a + sz)))
      else (arena_memory a + arena_count a, a\<lparr>arena_count := arena_count a + sz\<rparr>, h))"
  by (simp add: arena_allocator_alloc_def Let_def if_less_max split_beta)

lemma arena_allocator_realloc_eq:
  "arena_allocator_realloc B h a old_ptr sz =
     (if arena_length a < arena_count a + sz
      then (fst (backing_realloc B h (arena_memory a)
                   (max (arena_length a * 2) (arena_count a + sz))) + arena_count a,
            a\<lparr>arena_memory := fst (backing_realloc B h (arena_memory a)
                                     (max (arena_length a * 2) (arena_count a + sz))),
              arena_length := max (arena_length a * 2) (arena_count a + sz),
              arena_count := arena_count a + sz\<rparr>,
            snd (backing_realloc B h (arena_memory a)
                   (max (arena_length a * 2) (arena_count a + sz))))
      else (arena_memory a + arena_count a, a\<lparr>arena_count := arena_count a + sz\<rparr>, h))"
  by (simp add: arena_allocator_realloc_def Let_def if_less_max split_beta)

lemma arena_allocator_alloc_growth_increases_length:
  assumes "arena_length a < arena_count a + sz"
  shows "arena_length a < arena_length (fst (snd (arena_allocator_alloc B h a sz)))"
  using assms by (simp add: arena_allocator_alloc_eq less_max_iff_disj)

lemma arena_allocator_alloc_fresh:
  assumes "fst (backing_alloc B h 100) \<noteq> NULL"
  shows "arena_memory (fst (snd (arena_allocator_alloc B h (arena_allocator_create p) 100)))
           \<noteq> NULL"
  using assms by (simp add: arena_allocator_alloc_eq arena_allocator_create_def)

text \<open>
  C4.  The claim: allocation grows the arena exactly when \<open>count + size\<close> exceeds
  \<open>length\<close>, and the first \<^verbatim>\<open>allocate(100)\<close> on a fresh arena makes \<open>memory\<close>
  non-empty.  The \<^verbatim>\<open>size_t\<close> file does so (the four lemmas above).  The \<^verbatim>\<open>uint32_t\<close>
  file tests \<^verbatim>\<open>new_count < length\<close>: on a fresh arena, whatever the backing allocator,
  \<^verbatim>\<open>allocate(100)\<close> does not call it, returns \<^verbatim>\<open>NULL\<close> and leaves \<open>memory\<close> empty and
  \<open>length\<close> 0 with \<open>count\<close> at 100.  Likewise an arena with a buffer of 100 bytes, 50
  of them used, does not grow for a request of 100 bytes: \<open>count\<close> becomes 150 with
  \<open>length\<close> still 100.
\<close>

theorem arena_allocator_alloc_u32_fresh:
  "arena_allocator_alloc_u32 B h (arena_allocator_create_u32 p) 100 =
     (NULL, (arena_allocator_create_u32 p)\<lparr>arena32_count := 100\<rparr>, h)
   \<and> arena32_memory ((arena_allocator_create_u32 p)\<lparr>arena32_count := 100\<rparr>) = NULL
   \<and> arena32_length ((arena_allocator_create_u32 p)\<lparr>arena32_count := 100\<rparr>) = 0
   \<and> arena_allocator_alloc_u32 B h
         ((arena_allocator_create_u32 p)
            \<lparr>arena32_memory := 8192, arena32_count := 50, arena32_length := 100\<rparr>) 100 =
       (8242,
        (arena_allocator_create_u32 p)
          \<lparr>arena32_memory := 8192, arena32_count := 150, arena32_length := 100\<rparr>, h)"
  by (simp add: arena_allocator_alloc_u32_def arena_allocator_create_u32_def)

lemma arena_allocator_alloc_log:
  "snd (snd (arena_allocator_alloc (recording_allocator reply) log a sz)) =
     (if arena_length a < arena_count a + sz
      then log @ [Call_alloc (arena_count a + sz)] else log)"
  by (simp add: arena_allocator_alloc_eq recording_allocator_def)

lemma arena_allocator_realloc_log:
  "snd (snd (arena_allocator_realloc (recording_allocator reply) log a old_ptr sz)) =
     (if arena_length a < arena_count a + sz
      then log @ [Call_realloc (arena_memory a)
                    (max (arena_length a * 2) (arena_count a + sz))]
      else log)"
  by (simp add: arena_allocator_realloc_eq recording_allocator_def)

lemma arena_allocator_alloc_u32_log:
  "snd (snd (arena_allocator_alloc_u32 (recording_allocator reply) log a sz)) =
     (if (ucast (ucast (arena32_count a) + sz :: 64 word) :: 32 word) < arena32_length a
      then log @ [Call_alloc (ucast (ucast (ucast (arena32_count a) + sz :: 64 word) :: 32 word))]
      else log)"
  by (simp add: arena_allocator_alloc_u32_def recording_allocator_def Let_def)

lemma arena_allocator_realloc_u32_log:
  "snd (snd (arena_allocator_realloc_u32 (recording_allocator reply) log a old_ptr sz)) =
     (if (ucast (ucast (arena32_count a) + sz :: 64 word) :: 32 word) < arena32_length a
      then log @ [Call_realloc (arena32_memory a)
                    (ucast (ucast (ucast (arena32_count a) + sz :: 64 word) :: 32 word))]
      else log)"
  by (simp add: arena_allocator_realloc_u32_def recording_allocator_def Let_def)

text \<open>
  C5, as the code has it.  In both allocator files a growing
  \<^verbatim>\<open>arena_allocator_alloc\<close> makes one call to the backing allocator, its \<open>alloc\<close>, and a
  growing \<^verbatim>\<open>arena_allocator_realloc\<close> makes one call, the backing allocator's
  \<open>realloc\<close> on the arena's current buffer; a call that does not grow reaches the
  backing allocator not at all.
\<close>

theorem arena_growth_backing_calls:
  "snd (snd (arena_allocator_alloc (recording_allocator reply) log a sz)) =
     (if arena_length a < arena_count a + sz
      then log @ [Call_alloc (arena_count a + sz)] else log)
   \<and> snd (snd (arena_allocator_realloc (recording_allocator reply) log a old_ptr sz)) =
     (if arena_length a < arena_count a + sz
      then log @ [Call_realloc (arena_memory a)
                    (max (arena_length a * 2) (arena_count a + sz))]
      else log)
   \<and> snd (snd (arena_allocator_alloc_u32 (recording_allocator reply) log a32 sz)) =
     (if (ucast (ucast (arena32_count a32) + sz :: 64 word) :: 32 word) < arena32_length a32
      then log @ [Call_alloc (ucast (ucast (ucast (arena32_count a32) + sz :: 64 word) :: 32 word))]
      else log)
   \<and> snd (snd (arena_allocator_realloc_u32 (recording_allocator reply) log a32 old_ptr sz)) =
     (if (ucast (ucast (arena32_count a32) + sz :: 64 word) :: 32 word) < arena32_length a32
      then log @ [Call_realloc (arena32_memory a32)
                    (ucast (ucast (ucast (arena32_count a32) + sz :: 64 word) :: 32 word))]
      else log)"
  by (simp add: arena_allocator_alloc_log arena_allocator_realloc_log
      arena_allocator_alloc_u32_log arena_allocator_realloc_u32_log)

text \<open>
  C5 as stated fails for \<^verbatim>\<open>arena_allocator_realloc\<close>: on an arena holding a buffer at
  8192 with \<open>count = length = 100\<close>, a reallocation of 10000 bytes grows, and the one call
  the backing allocator receives is \<open>realloc\<close> of the old buffer to 10100 bytes.
\<close>

theorem arena_realloc_counterexample:
  "arena_length \<lparr>arena_allocator = \<lparr>alloc = Arena_allocator_alloc, free = Arena_allocator_free,
                                      realloc = Arena_allocator_realloc\<rparr>,
                  arena_backing_allocator = 4096, arena_memory = 8192,
                  arena_count = 100, arena_length = 100\<rparr>
     < arena_count \<lparr>arena_allocator = \<lparr>alloc = Arena_allocator_alloc, free = Arena_allocator_free,
                                      realloc = Arena_allocator_realloc\<rparr>,
                  arena_backing_allocator = 4096, arena_memory = 8192,
                  arena_count = 100, arena_length = 100\<rparr> + 10000
   \<and> arena_allocator_realloc (recording_allocator (constant_reply 12288)) []
       \<lparr>arena_allocator = \<lparr>alloc = Arena_allocator_alloc, free = Arena_allocator_free,
                            realloc = Arena_allocator_realloc\<rparr>,
        arena_backing_allocator = 4096, arena_memory = 8192,
        arena_count = 100, arena_length = 100\<rparr> 8192 10000 =
     (12388,
      \<lparr>arena_allocator = \<lparr>alloc = Arena_allocator_alloc, free = Arena_allocator_free,
                            realloc = Arena_allocator_realloc\<rparr>,
        arena_backing_allocator = 4096, arena_memory = 12288,
        arena_count = 10100, arena_length = 10100\<rparr>,
      [Call_realloc 8192 10100])"
  by (simp add: arena_allocator_realloc_def recording_allocator_def constant_reply_def)

text \<open>
  C10.  When \<^verbatim>\<open>arena_allocator_alloc\<close> grows, the backing allocator is asked for
  \<open>count + size\<close> bytes and the buffer it returns becomes \<open>memory\<close>, while \<open>length\<close>
  is set to the larger of twice the old length and \<open>count + size\<close>; so whenever twice the
  old length exceeds \<open>count + size\<close>, the recorded length is greater than the number of
  bytes obtained.
\<close>

theorem arena_allocator_alloc_requested_size:
  assumes "arena_length a < arena_count a + sz"
  shows "case arena_allocator_alloc (recording_allocator reply) log a sz of
           (ptr, a', log') \<Rightarrow>
             log' = log @ [Call_alloc (arena_count a + sz)]
             \<and> arena_memory a' = reply (Call_alloc (arena_count a + sz))
             \<and> arena_length a' = max (2 * arena_length a) (arena_count a + sz)
             \<and> (arena_count a + sz < 2 * arena_length a \<longrightarrow>
                  arena_count a + sz < arena_length a')"
  using assms
  by (simp add: arena_allocator_alloc_eq recording_allocator_def less_max_iff_disj mult.commute)

theorem arena_allocator_alloc_requested_size_witness:
  "arena_allocator_alloc (recording_allocator (constant_reply 12288)) []
       \<lparr>arena_allocator = \<lparr>alloc = Arena_allocator_alloc, free = Arena_allocator_free,
                            realloc = Arena_allocator_realloc\<rparr>,
        arena_backing_allocator = 4096, arena_memory = 8192,
        arena_count = 150, arena_length = 100\<rparr> 10 =
     (12438,
      \<lparr>arena_allocator = \<lparr>alloc = Arena_allocator_alloc, free = Arena_allocator_free,
                            realloc = Arena_allocator_realloc\<rparr>,
        arena_backing_allocator = 4096, arena_memory = 12288,
        arena_count = 160, arena_length = 200\<rparr>,
      [Call_alloc 160])
   \<and> (160 :: 64 word) < 200"
  using arena_allocator_alloc_requested_size
    [where a = "\<lparr>arena_allocator = \<lparr>alloc = Arena_allocator_alloc,
                                     free = Arena_allocator_free,
                                     realloc = Arena_allocator_realloc\<rparr>,
                  arena_backing_allocator = 4096, arena_memory = 8192,
                  arena_count = 150, arena_length = 100\<rparr>"
       and sz = 10 and reply = "constant_reply 12288" and log = "[]"]
  by (simp add: arena_allocator_alloc_eq recording_allocator_def constant_reply_def)

section \<open>Properties of the string builder\<close>

lemma length_realloc_slots: "length (realloc_slots slots n) = n div 8"
  by (simp add: realloc_slots_def)

lemma doubled_div_8_le:
  fixes l :: "32 word"
  shows "unat (l * 2) div 8 \<le> unat l"
proof -
  have "unat (l * 2) \<le> unat l * 2"
    by (simp add: unat_word_ariths)
  then show ?thesis by simp
qed

text \<open>
  Every append on a full builder stores outside the array: the doubled length is handed
  to \<^verbatim>\<open>realloc\<close> as a number of bytes, which are at most a quarter as many slots, so slot
  number \<open>count\<close> is not among them.
\<close>

lemma string_builder_append_full:
  assumes "sb_count builder = sb_length builder"
  shows "string_builder_append builder s =
           Inl (Store_outside_strings (unat (sb_count builder))
                  (unat (sb_length builder * 2) div 8))"
  using assms doubled_div_8_le [of "sb_length builder"]
  by (simp add: string_builder_append_def Let_def length_realloc_slots not_less)

text \<open>
  C6.  The claim: after every append \<open>count\<close> does not exceed \<open>length\<close>, for every
  initial capacity, capacity 0 included.  A builder of capacity 0 has \<open>count = length = 0\<close>;
  its first append doubles 0 to 0, the array has no slot, and the store to slot 0 is
  outside it.
\<close>

theorem string_builder_append_capacity_0:
  "sb_count (string_builder_create 0) = 0 \<and> sb_length (string_builder_create 0) = 0
   \<and> string_builder_append (string_builder_create 0) s = Inl (Store_outside_strings 0 0)"
  by (simp add: string_builder_append_def string_builder_create_def realloc_slots_def)

text \<open>
  C7.  The claim's example: a builder of capacity 2 takes four strings and extraction
  yields their concatenation.  The first two appends fill the array; the third calls
  \<^verbatim>\<open>realloc(strings, 4)\<close>, four bytes, which hold no whole pointer, and stores slot 2
  outside them.
\<close>

theorem string_builder_capacity_2_third_append:
  "string_builder_appends (string_builder_create 2) [''building '', ''a ''] =
     Inr \<lparr>sb_scan = \<lparr>scan_ret = String_builder_return, scan_append = String_builder_append\<rparr>,
          sb_strings = [Some ''building '', Some ''a ''], sb_count = 2, sb_length = 2\<rparr>
   \<and> string_builder_append
       \<lparr>sb_scan = \<lparr>scan_ret = String_builder_return, scan_append = String_builder_append\<rparr>,
        sb_strings = [Some ''building '', Some ''a ''], sb_count = 2, sb_length = 2\<rparr>
       ''string '' = Inl (Store_outside_strings 2 0)
   \<and> string_builder_appends (string_builder_create 2)
       [''building '', ''a '', ''string '', ''incrementally.''] =
     Inl (Store_outside_strings 2 0)"
  by code_simp

subsection \<open>The builder within its capacity\<close>

text \<open>
  What the claims on the string builder say does hold as long as no append has to grow
  the array: the appended strings fill the slots in order, and extraction writes their
  concatenation and a terminator at the front of the result buffer.
\<close>

lemma strlen_no_zero:
  assumes "CHR 0x00 \<notin> set t"
  shows "strlen t = length t"
  using assms by (induction t) (auto simp: strlen_def)

lemma unat_of_nat_32:
  assumes "n < 2 ^ 32"
  shows "unat (of_nat n :: 32 word) = n"
  using assms by (simp add: unat_of_nat)

lemma unat_add_of_nat_32:
  fixes off :: "32 word"
  assumes "unat off + n < 2 ^ 32"
  shows "unat (off + of_nat n) = unat off + n"
  using assms by (simp add: unat_word_ariths unat_of_nat take_bit_eq_mod)

lemma string_builder_return_step_ok:
  assumes "index < length (sb_strings b)" and "sb_strings b ! index = Some t"
    and "CHR 0x00 \<notin> set t" and "unat off + length t \<le> length buf"
    and "length buf < 2 ^ 32"
  shows "string_builder_return_step b index (off, buf) =
           Inr (off + of_nat (length t),
                take (unat off) buf @ t @ drop (unat off + length t) buf)"
proof -
  have "length t < 2 ^ 32"
    using assms(4,5) by simp
  then have "unat (of_nat (length t) :: 32 word) = length t"
    by (rule unat_of_nat_32)
  then show ?thesis
    using assms by (simp add: string_builder_return_step_def strlen_no_zero Let_def)
qed

lemma string_builder_return_loop_concat:
  assumes "\<forall>j < length ts. i + j < length (sb_strings b) \<and> sb_strings b ! (i + j) = Some (ts ! j)"
    and "\<forall>t \<in> set ts. CHR 0x00 \<notin> set t"
    and "unat off + length (concat ts) \<le> length buf"
    and "length buf < 2 ^ 32"
  shows "string_builder_return_loop b [i..<i + length ts] (off, buf) =
           Inr (off + of_nat (length (concat ts)),
                take (unat off) buf @ concat ts @ drop (unat off + length (concat ts)) buf)"
  using assms
proof (induction ts arbitrary: i off buf)
  case Nil
  then show ?case by simp
next
  case (Cons t ts)
  let ?off = "off + of_nat (length t)"
  let ?buf = "take (unat off) buf @ t @ drop (unat off + length t) buf"
  have range_eq: "[i..<i + length (t # ts)] = i # [Suc i..<Suc i + length ts]"
    by (simp add: upt_conv_Cons del: upt_Suc)
  have head: "i < length (sb_strings b)" "sb_strings b ! i = Some t"
    using Cons.prems(1) by fastforce+
  have fits: "unat off + length t \<le> length buf"
    using Cons.prems(3) by simp
  have step: "string_builder_return_step b i (off, buf) = Inr (?off, ?buf)"
    using head Cons.prems(2) fits Cons.prems(4)
    by (intro string_builder_return_step_ok) simp_all
  have off': "unat ?off = unat off + length t"
    using fits Cons.prems(4) by (intro unat_add_of_nat_32) simp
  have len': "length ?buf = length buf"
    using fits by simp
  have tail: "\<forall>j < length ts. Suc i + j < length (sb_strings b)
                \<and> sb_strings b ! (Suc i + j) = Some (ts ! j)"
  proof (intro allI impI)
    fix j assume "j < length ts"
    then have "Suc j < length (t # ts)" by simp
    then have "i + Suc j < length (sb_strings b) \<and> sb_strings b ! (i + Suc j) = Some ((t # ts) ! Suc j)"
      using Cons.prems(1) by blast
    then show "Suc i + j < length (sb_strings b) \<and> sb_strings b ! (Suc i + j) = Some (ts ! j)"
      by simp
  qed
  have IH: "string_builder_return_loop b [Suc i..<Suc i + length ts] (?off, ?buf) =
              Inr (?off + of_nat (length (concat ts)),
                   take (unat ?off) ?buf @ concat ts
                     @ drop (unat ?off + length (concat ts)) ?buf)"
    using tail Cons.prems(2,3,4) off' len'
    by (intro Cons.IH) simp_all
  have take_eq: "take (unat ?off) ?buf = take (unat off) buf @ t"
    using fits off' by simp
  have drop_eq: "drop (unat ?off + length (concat ts)) ?buf
                   = drop (unat off + length (concat (t # ts))) buf"
    using fits off' by (simp add: ac_simps)
  have "string_builder_return_loop b (i # [Suc i..<Suc i + length ts]) (off, buf) =
          string_builder_return_loop b [Suc i..<Suc i + length ts] (?off, ?buf)"
    by (simp only: string_builder_return_loop.simps step sum.case)
  also have "\<dots> = Inr (?off + of_nat (length (concat ts)),
                        (take (unat off) buf @ t) @ concat ts
                          @ drop (unat off + length (concat (t # ts))) buf)"
    unfolding IH take_eq drop_eq ..
  also have "\<dots> = Inr (off + of_nat (length (concat (t # ts))),
                        take (unat off) buf @ concat (t # ts)
                          @ drop (unat off + length (concat (t # ts))) buf)"
    by (simp add: add.assoc)
  finally show ?case
    unfolding range_eq .
qed

lemma string_builder_return_concat:
  assumes "length ss = unat (sb_count b)"
    and "take (unat (sb_count b)) (sb_strings b) = map Some ss"
    and "\<forall>s \<in> set ss. CHR 0x00 \<notin> set s"
    and "length (concat ss) < length result"
    and "length result < 2 ^ 32"
  shows "string_builder_return b result =
           Inr (concat ss @ CHR 0x00 # drop (Suc (length (concat ss))) result)"
proof -
  have slots: "\<forall>j < length ss. 0 + j < length (sb_strings b) \<and> sb_strings b ! (0 + j) = Some (ss ! j)"
  proof (intro allI impI)
    fix j assume j: "j < length ss"
    have "length (take (unat (sb_count b)) (sb_strings b)) = length ss"
      using assms(2) by simp
    then have "length ss \<le> length (sb_strings b)"
      by simp
    moreover have "take (unat (sb_count b)) (sb_strings b) ! j = Some (ss ! j)"
      using assms(2) j by simp
    ultimately show "0 + j < length (sb_strings b) \<and> sb_strings b ! (0 + j) = Some (ss ! j)"
      using j assms(1) by simp
  qed
  have loop: "string_builder_return_loop b [0..<0 + length ss] (0, result) =
          Inr (0 + of_nat (length (concat ss)),
               take (unat (0 :: 32 word)) result @ concat ss
                 @ drop (unat (0 :: 32 word) + length (concat ss)) result)"
    using slots assms(3,4,5) by (intro string_builder_return_loop_concat) simp_all
  have off: "unat (of_nat (length (concat ss)) :: 32 word) = length (concat ss)"
    using assms(4,5) by (intro unat_of_nat_32) simp
  have "(concat ss @ drop (length (concat ss)) result)[length (concat ss) := CHR 0x00]
          = concat ss @ CHR 0x00 # drop (Suc (length (concat ss))) result"
    using assms(4) by (simp add: list_update_append Cons_nth_drop_Suc [symmetric] del: concat.simps)
  then show ?thesis
    using loop assms(1,4) off
    by (simp add: string_builder_return_def)
qed

text \<open>Appends that find a free slot.\<close>

lemma string_builder_append_room:
  assumes "sb_strings b = map Some pre @ replicate (Suc k) None"
    and "sb_count b = of_nat (length pre)"
    and "sb_length b = of_nat (length pre + Suc k)"
    and "length pre + Suc k < 2 ^ 32"
  shows "string_builder_append b s =
           Inr (b\<lparr>sb_strings := map Some (pre @ [s]) @ replicate k None,
                  sb_count := of_nat (length (pre @ [s]))\<rparr>)"
proof -
  have c: "unat (sb_count b) = length pre"
    using assms(2,4) by (simp add: unat_of_nat_32)
  have l: "unat (sb_length b) = length pre + Suc k"
    using assms(3,4) unat_of_nat_32 [of "length pre + Suc k"] by simp
  have "unat (sb_count b) \<noteq> unat (sb_length b)"
    using c l by simp
  then have ne: "sb_count b \<noteq> sb_length b"
    by auto
  have upd: "(map Some pre @ replicate (Suc k) None)[length pre := Some s]
               = map Some (pre @ [s]) @ replicate k None"
    by (simp add: list_update_append)
  show ?thesis
    using ne c upd assms(1,2)
    by (simp add: string_builder_append_def Let_def)
qed

lemma string_builder_appends_room:
  assumes "sb_strings b = map Some pre @ replicate k None"
    and "sb_count b = of_nat (length pre)"
    and "sb_length b = of_nat (length pre + k)"
    and "length pre + k < 2 ^ 32"
    and "length ss \<le> k"
  shows "string_builder_appends b ss =
           Inr (b\<lparr>sb_strings := map Some (pre @ ss) @ replicate (k - length ss) None,
                  sb_count := of_nat (length (pre @ ss))\<rparr>)"
  using assms
proof (induction ss arbitrary: b pre k)
  case Nil
  then show ?case by simp
next
  case (Cons s ss)
  then obtain k' where k: "k = Suc k'"
    by (cases k) auto
  let ?b = "b\<lparr>sb_strings := map Some (pre @ [s]) @ replicate k' None,
               sb_count := of_nat (length (pre @ [s]))\<rparr>"
  have step: "string_builder_append b s = Inr ?b"
    using Cons.prems k by (intro string_builder_append_room) simp_all
  have "string_builder_appends ?b ss =
          Inr (?b\<lparr>sb_strings := map Some ((pre @ [s]) @ ss) @ replicate (k' - length ss) None,
                   sb_count := of_nat (length ((pre @ [s]) @ ss))\<rparr>)"
    using Cons.prems k by (intro Cons.IH) simp_all
  then show ?case
    using step k by simp
qed

lemma string_builder_appends_within_capacity:
  assumes "length ss \<le> unat capacity"
  shows "string_builder_appends (string_builder_create capacity) ss =
           Inr ((string_builder_create capacity)
                  \<lparr>sb_strings := map Some ss @ replicate (unat capacity - length ss) None,
                   sb_count := of_nat (length ss)\<rparr>)"
proof -
  have "unat capacity < 2 ^ LENGTH(32)"
    by (rule unsigned_less)
  then have "length ([] :: string list) + unat capacity < 2 ^ 32"
    by simp
  then show ?thesis
    using assms string_builder_appends_room [of "string_builder_create capacity" "[]" "unat capacity" ss]
    by (simp add: string_builder_create_def)
qed

lemma string_builder_within_capacity:
  assumes "length ss \<le> unat capacity"
    and "\<forall>s \<in> set ss. CHR 0x00 \<notin> set s"
    and "length (concat ss) < length result"
    and "length result < 2 ^ 32"
  shows "\<exists>b. string_builder_appends (string_builder_create capacity) ss = Inr b
           \<and> string_builder_return b result =
               Inr (concat ss @ CHR 0x00 # drop (Suc (length (concat ss))) result)"
proof -
  let ?b = "(string_builder_create capacity)
              \<lparr>sb_strings := map Some ss @ replicate (unat capacity - length ss) None,
               sb_count := of_nat (length ss)\<rparr>"
  have "unat capacity < 2 ^ LENGTH(32)"
    by (rule unsigned_less)
  then have "length ss < 2 ^ 32"
    using assms(1) by simp
  then have count: "unat (sb_count ?b) = length ss"
    by (simp add: unat_of_nat_32)
  have "string_builder_return ?b result =
          Inr (concat ss @ CHR 0x00 # drop (Suc (length (concat ss))) result)"
    using count assms(2,3,4) by (intro string_builder_return_concat) simp_all
  then show ?thesis
    using string_builder_appends_within_capacity [OF assms(1)] by blast
qed

text \<open>The strings of the example in a builder of capacity 4.\<close>

lemma string_builder_capacity_4:
  "string_builder_appends (string_builder_create 4)
       [''building '', ''a '', ''string '', ''incrementally.''] =
     Inr \<lparr>sb_scan = \<lparr>scan_ret = String_builder_return, scan_append = String_builder_append\<rparr>,
          sb_strings = [Some ''building '', Some ''a '', Some ''string '', Some ''incrementally.''],
          sb_count = 4, sb_length = 4\<rparr>"
  by code_simp

lemma string_builder_capacity_4_return:
  "string_builder_return
     \<lparr>sb_scan = \<lparr>scan_ret = String_builder_return, scan_append = String_builder_append\<rparr>,
      sb_strings = [Some ''building '', Some ''a '', Some ''string '', Some ''incrementally.''],
      sb_count = 4, sb_length = 4\<rparr> (replicate 40 (CHR ''x'')) =
   Inr (''building a string incrementally.'' @ CHR 0x00 # replicate 7 (CHR ''x''))"
  by code_simp

end
